theory Spec2Isabelle
  imports Complex_Main
begin

section \<open>Images, landmarks and drawing (the cv2 / mediapipe boundary)\<close>

text \<open>
  Python objects live in a store and are named by references. A store is a total function
  from references to objects together with a counter of the references handed out so far;
  aliasing (two variables naming one object) is two copies of one reference.

  Python floats are modelled as exact rationals: \<open>w * 0.05\<close> is \<open>w * (5 / 100)\<close> and
  \<open>int(x * w)\<close> truncates the exact product towards zero.
\<close>

type_synonym ref = nat
type_synonym colour = "nat \<times> nat \<times> nat"
type_synonym point = "int \<times> int"

text \<open>A normalised landmark as mediapipe delivers it: \<open>.x\<close>, \<open>.y\<close>, \<open>.z\<close>.\<close>

record landmark =
  x :: rat
  y :: rat
  z :: rat

text \<open>\<open>face_landmarks.landmark\<close>: the ordered landmark list of one face.\<close>

type_synonym face_landmarks = "landmark list"

text \<open>
  What the drawing calls of the source write onto a frame. The pixels they change are the
  business of cv2; the model records which call was made on which buffer, with its
  arguments, in the order of the calls.
\<close>

datatype draw_op =
    Draw_landmarks face_landmarks colour nat nat
  | Circle point nat colour int
  | Line point point colour nat
  | PutText string point rat colour nat

text \<open>
  A three-channel frame (\<open>frame.shape = (rows, cols, 3)\<close>): its pixel data and the
  overlays drawn on it so far.
\<close>

record image =
  rows :: nat
  cols :: nat
  data :: "nat \<Rightarrow> nat \<Rightarrow> colour"
  drawn :: "draw_op list"

text \<open>\<open>cv2.cvtColor(frame, cv2.COLOR_BGR2RGB)\<close>: a new array with the channels swapped.\<close>

definition cvtColor_BGR2RGB :: "image \<Rightarrow> image" where
  "cvtColor_BGR2RGB img =
     img\<lparr>data := (\<lambda>i j. case data img i j of (b, g, r) \<Rightarrow> (r, g, b))\<rparr>"

text \<open>A drawing call on the buffer that \<open>frame\<close> names: the buffer is changed in the store.\<close>

definition draw :: "draw_op \<Rightarrow> ref \<Rightarrow> (ref \<Rightarrow> image) \<Rightarrow> (ref \<Rightarrow> image)" where
  "draw d frame frames = frames(frame := (frames frame)\<lparr>drawn := drawn (frames frame) @ [d]\<rparr>)"

text \<open>Python's \<open>int()\<close> on a float: truncation towards zero.\<close>

definition py_int :: "rat \<Rightarrow> int" where
  "py_int q = (if 0 \<le> q then \<lfloor>q\<rfloor> else \<lceil>q\<rceil>)"

datatype exn = IndexError | Exception string

text \<open>\<open>str(e)\<close>\<close>

fun str :: "exn \<Rightarrow> string" where
  "str IndexError = ''list index out of range''"
| "str (Exception msg) = msg"

section \<open>\<open>main.py\<close>: class \<open>FaceDetector\<close>\<close>

record FaceDetector =
  reference_nose_tip :: "point option"
  calibrated :: bool
  face_mesh_closed :: bool

text \<open>
  \<open>FaceDetector.__init__\<close>. Building the mediapipe \<open>FaceMesh\<close> may raise; the environment
  says so by \<open>mesh_error\<close> (\<open>None\<close>: the mesh is built).
\<close>

definition FaceDetector_init :: "string option \<Rightarrow> exn + FaceDetector" where
  "FaceDetector_init mesh_error =
     (case mesh_error of
        Some msg \<Rightarrow> Inl (Exception msg)
      | None \<Rightarrow> Inr \<lparr>reference_nose_tip = None, calibrated = False, face_mesh_closed = False\<rparr>)"

text \<open>
  The block \<open># Determine direction\<close> of \<open>detect_movement\<close> (lines 79 to 94). The variable
  \<open>direction\<close> comes in with the value it has before the block and keeps it on every path
  that assigns nothing.
\<close>

definition determine_direction :: "string \<Rightarrow> int \<Rightarrow> int \<Rightarrow> rat \<Rightarrow> rat \<Rightarrow> string" where
  "determine_direction direction dx dy horizontal_threshold vertical_threshold =
     (if of_int \<bar>dx\<bar> > horizontal_threshold \<or> of_int \<bar>dy\<bar> > vertical_threshold then
        (if \<bar>dx\<bar> > \<bar>dy\<bar> then
           (if of_int dx > horizontal_threshold then ''RIGHT''
            else if of_int dx < - horizontal_threshold then ''LEFT''
            else direction)
         else
           (if of_int dy > vertical_threshold then ''DOWN''
            else if of_int dy < - vertical_threshold then ''UP''
            else direction))
      else ''CENTER'')"

text \<open>The two \<open>cv2.putText\<close> calls that end the face branch (lines 105 to 111).\<close>

definition display_direction :: "string \<Rightarrow> nat \<Rightarrow> ref \<Rightarrow> (ref \<Rightarrow> image) \<Rightarrow> (ref \<Rightarrow> image)" where
  "display_direction direction h frame frames =
     draw (PutText (''Press '' @ [CHR 0x27] @ ''C'' @ [CHR 0x27] @ '' to recalibrate'')
             (10, int h - 20) (1 / 2) (255, 255, 255) 1) frame
       (draw (PutText (''Direction: '' @ direction) (10, 30) 1 (0, 255, 0) 2) frame frames)"

text \<open>
  \<open>FaceDetector.detect_movement(self, frame)\<close>. \<open>process\<close> is \<open>self.face_mesh.process\<close>, the
  landmark model: it returns \<open>results.multi_face_landmarks\<close> as a list, empty when no face
  is found. The result is \<open>(direction, frame)\<close>, the detector object after the call and the
  store of frames after the call; \<open>landmark[1]\<close> on a list that short raises before
  anything is changed. The test \<open>not self.calibrated or self.reference_nose_tip is None\<close>
  is the \<open>case\<close> on the reference, read as absent when the flag is off; the \<open>else\<close> branch
  then has the reference at hand for \<open>self.reference_nose_tip[0]\<close> and \<open>[1]\<close>.
\<close>

definition detect_movement ::
  "(image \<Rightarrow> face_landmarks list) \<Rightarrow> FaceDetector \<Rightarrow> (ref \<Rightarrow> image) \<Rightarrow> ref
     \<Rightarrow> exn + ((string \<times> ref) \<times> FaceDetector \<times> (ref \<Rightarrow> image))" where
  "detect_movement process self frames frame =
     (let rgb_frame = cvtColor_BGR2RGB (frames frame);
          results = process rgb_frame;
          direction = ''NO FACE''
      in case results of
           face_landmarks # _ \<Rightarrow>
             (let h = rows (frames frame); w = cols (frames frame)
              in if length face_landmarks \<le> 1 then Inl IndexError
                 else
                   let nose_tip = face_landmarks ! 1;
                       nose_x = py_int (x nose_tip * of_nat w);
                       nose_y = py_int (y nose_tip * of_nat h);
                       frames1 = draw (Draw_landmarks face_landmarks (0, 255, 0) 1 1) frame frames
                   in case (if \<not> calibrated self then None else reference_nose_tip self) of
                        None \<Rightarrow>
                          (let self1 = self\<lparr>reference_nose_tip := Some (nose_x, nose_y),
                                           calibrated := True\<rparr>;
                               direction = ''CENTER (Calibrated)''
                           in Inr ((direction, frame), self1,
                                   display_direction direction h frame frames1))
                      | Some reference \<Rightarrow>
                          (let dx = nose_x - fst reference;
                               dy = nose_y - snd reference;
                               horizontal_threshold = of_nat w * (5 / 100);
                               vertical_threshold = of_nat h * (5 / 100);
                               direction = determine_direction direction dx dy
                                             horizontal_threshold vertical_threshold;
                               frames2 = draw (Circle reference 5 (255, 0, 0) (- 1)) frame frames1;
                               frames3 = draw (Circle (nose_x, nose_y) 5 (0, 0, 255) (- 1)) frame frames2;
                               frames4 = draw (Line reference (nose_x, nose_y) (255, 255, 0) 2)
                                           frame frames3
                           in Inr ((direction, frame), self,
                                   display_direction direction h frame frames4)))
         | [] \<Rightarrow>
             Inr ((direction, frame), self,
                  draw (PutText ''No face detected'' (10, 30) 1 (0, 0, 255) 2) frame frames))"

text \<open>\<open>FaceDetector.recalibrate\<close>\<close>

definition recalibrate_detector :: "FaceDetector \<Rightarrow> FaceDetector" where
  "recalibrate_detector self = self\<lparr>reference_nose_tip := None, calibrated := False\<rparr>"

text \<open>
  \<open>FaceDetector.release\<close>: \<open>self.face_mesh.close()\<close>. The object records that its mesh is
  closed; \<open>detect_movement\<close> has no test of it, and what mediapipe does when a closed mesh
  is asked to process a frame is outside this model (\<open>process\<close> stands for a live mesh).
\<close>

definition release_detector :: "FaceDetector \<Rightarrow> FaceDetector" where
  "release_detector self = self\<lparr>face_mesh_closed := True\<rparr>"

text \<open>The direction a call returned, if it returned.\<close>

definition returned_direction ::
  "exn + ((string \<times> ref) \<times> FaceDetector \<times> (ref \<Rightarrow> image)) \<Rightarrow> string option" where
  "returned_direction res = (case res of Inl e \<Rightarrow> None | Inr ((direction, frame), rest) \<Rightarrow> Some direction)"

text \<open>
  Lines 50 to 52: the nose tip (landmark 1) scaled to pixels of the frame, as
  \<open>detect_movement\<close> computes \<open>(nose_x, nose_y)\<close>.
\<close>

definition nose_pixel :: "image \<Rightarrow> face_landmarks \<Rightarrow> point" where
  "nose_pixel img face_landmarks =
     (py_int (x (face_landmarks ! 1) * of_nat (cols img)),
      py_int (y (face_landmarks ! 1) * of_nat (rows img)))"

text \<open>
  One detector fed a run of frames, one call per frame, as the loops of \<open>test_camera\<close> and
  \<open>generate_frames\<close> do; an exception ends the run.
\<close>

fun detect_movements ::
  "(image \<Rightarrow> face_landmarks list) \<Rightarrow> FaceDetector \<Rightarrow> (ref \<Rightarrow> image) \<Rightarrow> ref list
     \<Rightarrow> exn + (string list \<times> FaceDetector \<times> (ref \<Rightarrow> image))" where
  "detect_movements process self frames [] = Inr ([], self, frames)"
| "detect_movements process self frames (frame # rest) =
     (case detect_movement process self frames frame of
        Inl e \<Rightarrow> Inl e
      | Inr ((direction, annotated_frame), self1, frames1) \<Rightarrow>
          (case detect_movements process self1 frames1 rest of
             Inl e \<Rightarrow> Inl e
           | Inr (directions, self2, frames2) \<Rightarrow> Inr (direction # directions, self2, frames2)))"

section \<open>\<open>detection.py\<close>: the capture session\<close>

text \<open>
  A \<open>cv2.VideoCapture\<close> object is a handle that is open or not. What lies outside the
  program is the environment of a call: whether building the face mesh raises, whether
  the camera can be opened, and what an open camera delivers to a read (\<open>None\<close>: the read
  fails).
\<close>

record VideoCapture =
  opened :: bool

record env =
  mesh_error :: "string option"
  device_available :: bool
  device_frame :: "image option"

text \<open>\<open>cv2.VideoCapture(0)\<close>\<close>

definition cv2_VideoCapture :: "env \<Rightarrow> VideoCapture" where
  "cv2_VideoCapture e = \<lparr>opened = device_available e\<rparr>"

definition isOpened :: "VideoCapture \<Rightarrow> bool" where
  "isOpened cap = opened cap"

text \<open>\<open>camera.release()\<close>\<close>

definition release_capture :: "VideoCapture \<Rightarrow> VideoCapture" where
  "release_capture cap = cap\<lparr>opened := False\<rparr>"

text \<open>\<open>cap.read()\<close>: \<open>(False, None)\<close> is \<open>None\<close>, \<open>(True, frame)\<close> is the frame read.\<close>

definition read_capture :: "env \<Rightarrow> VideoCapture \<Rightarrow> image option" where
  "read_capture e cap = (if opened cap then device_frame e else None)"

text \<open>
  The module: the globals \<open>detector\<close> and \<open>camera\<close> (\<open>None\<close> or a reference) and the stores
  of the objects created so far.
\<close>

record module_state =
  detector :: "ref option"
  camera :: "ref option"
  detector_store :: "ref \<Rightarrow> FaceDetector"
  detector_count :: nat
  capture_store :: "ref \<Rightarrow> VideoCapture"
  capture_count :: nat
  frame_store :: "ref \<Rightarrow> image"
  frame_count :: nat

definition initial :: module_state where
  "initial =
     \<lparr>detector = None, camera = None,
      detector_store = (\<lambda>r. \<lparr>reference_nose_tip = None, calibrated = False, face_mesh_closed = False\<rparr>),
      detector_count = 0,
      capture_store = (\<lambda>r. \<lparr>opened = False\<rparr>),
      capture_count = 0,
      frame_store = (\<lambda>r. \<lparr>rows = 0, cols = 0, data = (\<lambda>i j. (0, 0, 0)), drawn = []\<rparr>),
      frame_count = 0\<rparr>"

definition get_detector :: "env \<Rightarrow> module_state \<Rightarrow> exn + (ref \<times> module_state)" where
  "get_detector e s =
     (case detector s of
        None \<Rightarrow>
          (case FaceDetector_init (mesh_error e) of
             Inl ex \<Rightarrow> Inl ex
           | Inr obj \<Rightarrow>
               Inr (detector_count s,
                    s\<lparr>detector := Some (detector_count s),
                      detector_store := (detector_store s)(detector_count s := obj),
                      detector_count := Suc (detector_count s)\<rparr>))
      | Some r \<Rightarrow> Inr (r, s))"

text \<open>A new \<open>VideoCapture\<close> object becomes the global \<open>camera\<close>.\<close>

definition new_camera :: "env \<Rightarrow> module_state \<Rightarrow> ref \<times> module_state" where
  "new_camera e s =
     (capture_count s,
      s\<lparr>camera := Some (capture_count s),
        capture_store := (capture_store s)(capture_count s := cv2_VideoCapture e),
        capture_count := Suc (capture_count s)\<rparr>)"

definition get_camera :: "env \<Rightarrow> module_state \<Rightarrow> ref \<times> module_state" where
  "get_camera e s =
     (case camera s of
        None \<Rightarrow> new_camera e s
      | Some r \<Rightarrow> if \<not> isOpened (capture_store s r) then new_camera e s else (r, s))"

text \<open>\<open>jsonify({...}), code\<close>: the body as its key-value pairs, and the status code.\<close>

datatype json = JStr string | JBool bool

type_synonym response = "(string \<times> json) list \<times> nat"

definition status_message :: "string \<Rightarrow> string \<Rightarrow> nat \<Rightarrow> response" where
  "status_message status message code = ([(''status'', JStr status), (''message'', JStr message)], code)"

definition start_detection :: "env \<Rightarrow> module_state \<Rightarrow> response \<times> module_state" where
  "start_detection e s =
     (case get_detector e s of
        Inl ex \<Rightarrow> (status_message ''error'' (str ex) 500, s)
      | Inr (face_detector, s1) \<Rightarrow>
          (case get_camera e s1 of
             (cap, s2) \<Rightarrow>
               if isOpened (capture_store s2 cap)
               then (status_message ''success'' ''Detection started'' 200, s2)
               else (status_message ''error'' ''Could not access camera'' 500, s2)))"

text \<open>
  \<open>stop_detection\<close>. Neither \<open>release\<close> raises in this model, so the \<open>except\<close> branch has
  no path to it.
\<close>

definition stop_detection :: "module_state \<Rightarrow> response \<times> module_state" where
  "stop_detection s =
     (let s1 = (case camera s of
                  Some r \<Rightarrow> s\<lparr>capture_store := (capture_store s)(r := release_capture (capture_store s r)),
                              camera := None\<rparr>
                | None \<Rightarrow> s);
          s2 = (case detector s1 of
                  Some r \<Rightarrow> s1\<lparr>detector_store := (detector_store s1)(r := release_detector (detector_store s1 r)),
                               detector := None\<rparr>
                | None \<Rightarrow> s1)
      in (status_message ''success'' ''Detection stopped'' 200, s2))"

text \<open>The route \<open>/recalibrate\<close>.\<close>

definition recalibrate :: "env \<Rightarrow> module_state \<Rightarrow> response \<times> module_state" where
  "recalibrate e s =
     (case get_detector e s of
        Inl ex \<Rightarrow> (status_message ''error'' (str ex) 500, s)
      | Inr (face_detector, s1) \<Rightarrow>
          (status_message ''success'' ''Recalibrated successfully'' 200,
           s1\<lparr>detector_store :=
                (detector_store s1)(face_detector := recalibrate_detector (detector_store s1 face_detector))\<rparr>))"

text \<open>\<open>camera is not None and camera.isOpened()\<close>\<close>

definition is_active :: "module_state \<Rightarrow> bool" where
  "is_active s = (case camera s of None \<Rightarrow> False | Some r \<Rightarrow> isOpened (capture_store s r))"

definition detection_status :: "module_state \<Rightarrow> response" where
  "detection_status s =
     ([(''active'', JBool (is_active s)),
       (''message'', JStr (if is_active s then ''Detection is active'' else ''Detection is inactive''))],
      200)"

text \<open>
  \<open>generate_frames\<close> is a generator: it runs when the consumer asks for the next part and
  rests at its \<open>yield\<close> with its locals \<open>face_detector\<close> and \<open>cap\<close>. A request for the next
  part gives a part, or the end of the sequence (\<open>None\<close>), or an exception.
\<close>

datatype generator = Created | Suspended ref ref | Finished

definition multipart :: "string \<Rightarrow> string" where
  "multipart frame_bytes =
     ''--frame'' @ [CHR 0x0D, CHR 0x0A] @ ''Content-Type: image/jpeg'' @ [CHR 0x0D, CHR 0x0A, CHR 0x0D, CHR 0x0A]
       @ frame_bytes @ [CHR 0x0D, CHR 0x0A]"

text \<open>
  One turn of the \<open>while True\<close> loop, up to the \<open>yield\<close> or the \<open>break\<close>. \<open>imencode\<close> is
  \<open>cv2.imencode('.jpg', _)\<close> followed by \<open>tobytes()\<close>. A frame read is a new buffer.
\<close>

definition loop_turn ::
  "(image \<Rightarrow> string) \<Rightarrow> (image \<Rightarrow> face_landmarks list) \<Rightarrow> env \<Rightarrow> ref \<Rightarrow> ref \<Rightarrow> module_state
     \<Rightarrow> (exn + string option) \<times> generator \<times> module_state" where
  "loop_turn imencode process e face_detector cap s =
     (case read_capture e (capture_store s cap) of
        None \<Rightarrow> (Inr None, Finished, s)
      | Some img \<Rightarrow>
          (let frame = frame_count s;
               s1 = s\<lparr>frame_store := (frame_store s)(frame := img), frame_count := Suc frame\<rparr>
           in case detect_movement process (detector_store s1 face_detector) (frame_store s1) frame of
                Inl ex \<Rightarrow> (Inl ex, Finished, s1)
              | Inr ((direction, annotated_frame), self1, frames1) \<Rightarrow>
                  (let s2 = s1\<lparr>detector_store := (detector_store s1)(face_detector := self1),
                               frame_store := frames1\<rparr>;
                       frame_bytes = imencode (frames1 annotated_frame)
                   in (Inr (Some (multipart frame_bytes)), Suspended face_detector cap, s2))))"

definition generator_next ::
  "(image \<Rightarrow> string) \<Rightarrow> (image \<Rightarrow> face_landmarks list) \<Rightarrow> env \<Rightarrow> generator \<Rightarrow> module_state
     \<Rightarrow> (exn + string option) \<times> generator \<times> module_state" where
  "generator_next imencode process e g s =
     (case g of
        Created \<Rightarrow>
          (case get_detector e s of
             Inl ex \<Rightarrow> (Inl ex, Finished, s)
           | Inr (face_detector, s1) \<Rightarrow>
               (case get_camera e s1 of
                  (cap, s2) \<Rightarrow> loop_turn imencode process e face_detector cap s2))
      | Suspended face_detector cap \<Rightarrow> loop_turn imencode process e face_detector cap s
      | Finished \<Rightarrow> (Inr None, Finished, s))"

text \<open>The handles created so far that are open.\<close>

definition open_handles :: "module_state \<Rightarrow> nat" where
  "open_handles s = length (filter (\<lambda>r. opened (capture_store s r)) [0..<capture_count s])"

section \<open>Sample inputs\<close>

definition dark_frame :: image where
  "dark_frame = \<lparr>rows = 480, cols = 640, data = (\<lambda>i j. (0, 0, 0)), drawn = []\<rparr>"

definition lit_frame :: image where
  "lit_frame = \<lparr>rows = 480, cols = 640, data = (\<lambda>i j. (200, 150, 100)), drawn = []\<rparr>"

text \<open>A face whose nose tip falls on pixel \<open>(nx, ny)\<close> of a 640 by 480 frame.\<close>

definition face_at :: "int \<Rightarrow> int \<Rightarrow> face_landmarks" where
  "face_at nx ny = [\<lparr>x = 1 / 2, y = 1 / 2, z = 0\<rparr>,
                    \<lparr>x = of_int nx / 640, y = of_int ny / 480, z = 0\<rparr>]"

text \<open>A landmark model that finds that face in every frame that is not black.\<close>

definition sees_face_at :: "int \<Rightarrow> int \<Rightarrow> image \<Rightarrow> face_landmarks list" where
  "sees_face_at nx ny img = (if data img 0 0 = (0, 0, 0) then [] else [face_at nx ny])"

definition calibrated_at :: "int \<Rightarrow> int \<Rightarrow> FaceDetector" where
  "calibrated_at rx ry =
     \<lparr>reference_nose_tip = Some (rx, ry), calibrated = True, face_mesh_closed = False\<rparr>"

definition camera_ready :: env where
  "camera_ready = \<lparr>mesh_error = None, device_available = True, device_frame = Some lit_frame\<rparr>"

definition read_fails :: env where
  "read_fails = \<lparr>mesh_error = None, device_available = True, device_frame = None\<rparr>"

definition no_camera :: env where
  "no_camera = \<lparr>mesh_error = None, device_available = False, device_frame = None\<rparr>"

section \<open>Shared facts about one call of \<open>detect_movement\<close>\<close>

lemma no_face_step:
  "process (cvtColor_BGR2RGB (frames frame)) = [] \<Longrightarrow>
   detect_movement process self frames frame =
     Inr ((''NO FACE'', frame), self,
          draw (PutText ''No face detected'' (10, 30) 1 (0, 0, 255) 2) frame frames)"
  by (simp add: detect_movement_def)

lemma calibrating_step:
  "process (cvtColor_BGR2RGB (frames frame)) = face # others \<Longrightarrow> 1 < length face \<Longrightarrow>
   \<not> calibrated self \<or> reference_nose_tip self = None \<Longrightarrow>
   detect_movement process self frames frame =
     Inr ((''CENTER (Calibrated)'', frame),
          self\<lparr>reference_nose_tip := Some (nose_pixel (frames frame) face), calibrated := True\<rparr>,
          display_direction ''CENTER (Calibrated)'' (rows (frames frame)) frame
            (draw (Draw_landmarks face (0, 255, 0) 1 1) frame frames))"
  by (auto simp add: detect_movement_def nose_pixel_def Let_def)

lemma calibrated_step:
  assumes "calibrated self" and "reference_nose_tip self = Some (rx, ry)"
    and "process (cvtColor_BGR2RGB (frames frame)) = face # others" and "1 < length face"
    and "nose_pixel (frames frame) face = (nx, ny)"
  shows "returned_direction (detect_movement process self frames frame) =
           Some (determine_direction ''NO FACE'' (nx - rx) (ny - ry)
                   (of_nat (cols (frames frame)) * (5 / 100))
                   (of_nat (rows (frames frame)) * (5 / 100)))"
  using assms
  by (simp add: detect_movement_def returned_direction_def nose_pixel_def Let_def)

lemma draw_other: "r \<noteq> frame \<Longrightarrow> draw d frame frames r = frames r"
  by (simp add: draw_def)

lemmas sample_defs =
  dark_frame_def lit_frame_def face_at_def sees_face_at_def calibrated_at_def
  cvtColor_BGR2RGB_def nose_pixel_def py_int_def

lemma sample_hyps:
  "calibrated (calibrated_at 320 240)"
  "reference_nose_tip (calibrated_at 320 240) = Some (320, 240)"
  "sees_face_at nx ny (cvtColor_BGR2RGB lit_frame) = face_at nx ny # []"
  "1 < length (face_at nx ny)"
  "640 = cols lit_frame"
  "480 = rows lit_frame"
  by (simp_all add: sample_defs)

lemma sample_nose:
  "nose_pixel lit_frame (face_at 390 245) = (390, 245)"
  "nose_pixel lit_frame (face_at 322 300) = (322, 300)"
  "nose_pixel lit_frame (face_at 325 242) = (325, 242)"
  "nose_pixel lit_frame (face_at 250 245) = (250, 245)"
  "nose_pixel lit_frame (face_at 322 180) = (322, 180)"
  "nose_pixel lit_frame (face_at 350 265) = (350, 265)"
  by (simp_all add: sample_defs)

lemma sample_displacements:
  "(70::int) = 390 - 320" "(5::int) = 245 - 240" "(2::int) = 322 - 320" "(60::int) = 300 - 240"
  "(5::int) = 325 - 320" "(2::int) = 242 - 240" "(- 70::int) = 250 - 320" "(- 60::int) = 180 - 240"
  "(30::int) = 350 - 320" "(25::int) = 265 - 240"
  by simp_all

section \<open>The direction table\<close>

text \<open>
  C1. A calibrated detector with reference \<open>(rx, ry)\<close> is given a frame of width \<open>W\<close> and
  height \<open>H\<close> in which a face is found with its nose tip at pixel \<open>(nx, ny)\<close>; \<open>dx = nx - rx\<close>
  and \<open>dy = ny - ry\<close>. Then \<open>detect_movement\<close> returns CENTER when \<open>|dx| \<le> 0.05 W\<close> and
  \<open>|dy| \<le> 0.05 H\<close>; RIGHT when \<open>|dx| > |dy|\<close> and \<open>dx > 0.05 W\<close>; LEFT when \<open>|dx| > |dy|\<close> and
  \<open>dx < - 0.05 W\<close>; DOWN when \<open>|dy| \<ge> |dx|\<close> and \<open>dy > 0.05 H\<close>; UP when \<open>|dy| \<ge> |dx|\<close> and
  \<open>dy < - 0.05 H\<close>.
\<close>

theorem detect_movement_direction_table:
  assumes "calibrated self" and "reference_nose_tip self = Some (rx, ry)"
    and "process (cvtColor_BGR2RGB (frames frame)) = face # others" and "1 < length face"
    and "W = cols (frames frame)" and "H = rows (frames frame)"
    and "nose_pixel (frames frame) face = (nx, ny)" and "dx = nx - rx" and "dy = ny - ry"
  shows "(of_int \<bar>dx\<bar> \<le> 0.05 * (of_nat W :: rat) \<and> of_int \<bar>dy\<bar> \<le> 0.05 * (of_nat H :: rat) \<longrightarrow>
            returned_direction (detect_movement process self frames frame) = Some ''CENTER'') \<and>
         (\<bar>dx\<bar> > \<bar>dy\<bar> \<and> of_int dx > 0.05 * (of_nat W :: rat) \<longrightarrow>
            returned_direction (detect_movement process self frames frame) = Some ''RIGHT'') \<and>
         (\<bar>dx\<bar> > \<bar>dy\<bar> \<and> of_int dx < - (0.05 * (of_nat W :: rat)) \<longrightarrow>
            returned_direction (detect_movement process self frames frame) = Some ''LEFT'') \<and>
         (\<bar>dy\<bar> \<ge> \<bar>dx\<bar> \<and> of_int dy > 0.05 * (of_nat H :: rat) \<longrightarrow>
            returned_direction (detect_movement process self frames frame) = Some ''DOWN'') \<and>
         (\<bar>dy\<bar> \<ge> \<bar>dx\<bar> \<and> of_int dy < - (0.05 * (of_nat H :: rat)) \<longrightarrow>
            returned_direction (detect_movement process self frames frame) = Some ''UP'')"
proof -
  let ?ht = "of_nat W * (5 / 100) :: rat" and ?vt = "of_nat H * (5 / 100) :: rat"
  have r: "returned_direction (detect_movement process self frames frame) =
             Some (determine_direction ''NO FACE'' dx dy ?ht ?vt)"
    using assms by (simp add: calibrated_step)
  have ht: "0 \<le> ?ht" and vt: "0 \<le> ?vt" by simp_all
  have e: "0.05 * (of_nat W :: rat) = ?ht" "0.05 * (of_nat H :: rat) = ?vt" by simp_all
  have ax: "(of_int \<bar>dx\<bar> :: rat) = \<bar>of_int dx\<bar>" and ay: "(of_int \<bar>dy\<bar> :: rat) = \<bar>of_int dy\<bar>"
    by simp_all
  show ?thesis
    unfolding r e determine_direction_def ax ay
    using ht vt by (auto simp del: of_int_abs)
qed

text \<open>
  The scenarios of the specification, on a 640 by 480 frame with reference \<open>(320, 240)\<close>:
  nose at \<open>(390, 245)\<close> gives RIGHT, at \<open>(322, 300)\<close> DOWN, at \<open>(325, 242)\<close> CENTER; and at
  \<open>(250, 245)\<close> LEFT, at \<open>(322, 180)\<close> UP.
\<close>

theorem detect_movement_direction_table_witness:
  "returned_direction (detect_movement (sees_face_at 390 245) (calibrated_at 320 240) (\<lambda>r. lit_frame) 0)
     = Some ''RIGHT'' \<and>
   returned_direction (detect_movement (sees_face_at 322 300) (calibrated_at 320 240) (\<lambda>r. lit_frame) 0)
     = Some ''DOWN'' \<and>
   returned_direction (detect_movement (sees_face_at 325 242) (calibrated_at 320 240) (\<lambda>r. lit_frame) 0)
     = Some ''CENTER'' \<and>
   returned_direction (detect_movement (sees_face_at 250 245) (calibrated_at 320 240) (\<lambda>r. lit_frame) 0)
     = Some ''LEFT'' \<and>
   returned_direction (detect_movement (sees_face_at 322 180) (calibrated_at 320 240) (\<lambda>r. lit_frame) 0)
     = Some ''UP''"
  using detect_movement_direction_table [where self = "calibrated_at 320 240" and rx = 320 and ry = 240
        and process = "sees_face_at 390 245" and frames = "\<lambda>r. lit_frame" and frame = 0
        and face = "face_at 390 245" and others = "[]" and W = 640 and H = 480
        and nx = 390 and ny = 245 and dx = 70 and dy = 5,
        OF sample_hyps sample_nose(1) sample_displacements(1,2)]
    detect_movement_direction_table [where self = "calibrated_at 320 240" and rx = 320 and ry = 240
        and process = "sees_face_at 322 300" and frames = "\<lambda>r. lit_frame" and frame = 0
        and face = "face_at 322 300" and others = "[]" and W = 640 and H = 480
        and nx = 322 and ny = 300 and dx = 2 and dy = 60,
        OF sample_hyps sample_nose(2) sample_displacements(3,4)]
    detect_movement_direction_table [where self = "calibrated_at 320 240" and rx = 320 and ry = 240
        and process = "sees_face_at 325 242" and frames = "\<lambda>r. lit_frame" and frame = 0
        and face = "face_at 325 242" and others = "[]" and W = 640 and H = 480
        and nx = 325 and ny = 242 and dx = 5 and dy = 2,
        OF sample_hyps sample_nose(3) sample_displacements(5,6)]
    detect_movement_direction_table [where self = "calibrated_at 320 240" and rx = 320 and ry = 240
        and process = "sees_face_at 250 245" and frames = "\<lambda>r. lit_frame" and frame = 0
        and face = "face_at 250 245" and others = "[]" and W = 640 and H = 480
        and nx = 250 and ny = 245 and dx = "- 70" and dy = 5,
        OF sample_hyps sample_nose(4) sample_displacements(7,2)]
    detect_movement_direction_table [where self = "calibrated_at 320 240" and rx = 320 and ry = 240
        and process = "sees_face_at 322 180" and frames = "\<lambda>r. lit_frame" and frame = 0
        and face = "face_at 322 180" and others = "[]" and W = 640 and H = 480
        and nx = 322 and ny = 180 and dx = 2 and dy = "- 60",
        OF sample_hyps sample_nose(5) sample_displacements(3,8)]
  by simp

section \<open>The branch that assigns nothing\<close>

text \<open>
  C2. A calibrated detector processes a frame with a face. When the dominant-axis branch is
  taken (one of the two displacements exceeds its threshold) but the comparisons of the
  dominant axis both fail (\<open>|dx| > |dy|\<close> with \<open>|dx| \<le> 0.05 W\<close>, or \<open>|dy| \<ge> |dx|\<close> with
  \<open>|dy| \<le> 0.05 H\<close>), nothing is assigned and \<open>detect_movement\<close> returns the initial
  \<open>NO FACE\<close>, although a face was found.
\<close>

theorem detect_movement_no_assignment:
  assumes "calibrated self" and "reference_nose_tip self = Some (rx, ry)"
    and "process (cvtColor_BGR2RGB (frames frame)) = face # others" and "1 < length face"
    and "W = cols (frames frame)" and "H = rows (frames frame)"
    and "nose_pixel (frames frame) face = (nx, ny)" and "dx = nx - rx" and "dy = ny - ry"
    and "of_int \<bar>dx\<bar> > 0.05 * (of_nat W :: rat) \<or> of_int \<bar>dy\<bar> > 0.05 * (of_nat H :: rat)"
    and "(\<bar>dx\<bar> > \<bar>dy\<bar> \<and> of_int \<bar>dx\<bar> \<le> 0.05 * (of_nat W :: rat)) \<or>
         (\<bar>dy\<bar> \<ge> \<bar>dx\<bar> \<and> of_int \<bar>dy\<bar> \<le> 0.05 * (of_nat H :: rat))"
  shows "returned_direction (detect_movement process self frames frame) = Some ''NO FACE''"
proof -
  let ?ht = "of_nat W * (5 / 100) :: rat" and ?vt = "of_nat H * (5 / 100) :: rat"
  have r: "returned_direction (detect_movement process self frames frame) =
             Some (determine_direction ''NO FACE'' dx dy ?ht ?vt)"
    using assms(1-9) by (simp add: calibrated_step)
  have e: "0.05 * (of_nat W :: rat) = ?ht" "0.05 * (of_nat H :: rat) = ?vt" by simp_all
  have ax: "(of_int \<bar>dx\<bar> :: rat) = \<bar>of_int dx\<bar>" and ay: "(of_int \<bar>dy\<bar> :: rat) = \<bar>of_int dy\<bar>"
    by simp_all
  show ?thesis
    using assms(10,11) unfolding r e determine_direction_def ax ay
    by (auto simp del: of_int_abs)
qed

text \<open>
  On a 640 by 480 frame the thresholds are 32 and 24. With reference \<open>(320, 240)\<close> and the
  nose at \<open>(350, 265)\<close>, \<open>dx = 30\<close> and \<open>dy = 25\<close>: the vertical threshold is exceeded, the
  horizontal axis is dominant, and \<open>dx\<close> is within its threshold.
\<close>

theorem detect_movement_no_assignment_witness:
  "sees_face_at 350 265 (cvtColor_BGR2RGB lit_frame) = [face_at 350 265] \<and>
   returned_direction (detect_movement (sees_face_at 350 265) (calibrated_at 320 240) (\<lambda>r. lit_frame) 0)
     = Some ''NO FACE''"
  using detect_movement_no_assignment [where self = "calibrated_at 320 240" and rx = 320 and ry = 240
        and process = "sees_face_at 350 265" and frames = "\<lambda>r. lit_frame" and frame = 0
        and face = "face_at 350 265" and others = "[]" and W = 640 and H = 480
        and nx = 350 and ny = 265 and dx = 30 and dy = 25,
        OF sample_hyps sample_nose(6) sample_displacements(9,10)]
    sample_hyps(3) [of 350 265]
  by simp

section \<open>Calibration\<close>

text \<open>
  C4. A detector is fresh from its constructor, or has just been recalibrated (whatever
  it held before); \<open>recalibrate\<close> leaves it with no reference and the flag off. It is then
  given frames in which no face is found, and after them a frame with a face. That frame
  is the one that sets the reference to its nose pixel position, sets the flag, and
  returns \<open>CENTER (Calibrated)\<close>.
\<close>

theorem calibration_on_first_face:
  assumes "FaceDetector_init None = Inr self \<or> self = recalibrate_detector prior"
    and "distinct (earlier @ [frame])"
    and "\<forall>r \<in> set earlier. process (cvtColor_BGR2RGB (frames r)) = []"
    and "process (cvtColor_BGR2RGB (frames frame)) = face # others" and "1 < length face"
  shows "reference_nose_tip self = None \<and> \<not> calibrated self \<and>
         (\<exists>frames'. detect_movements process self frames (earlier @ [frame]) =
            Inr (replicate (length earlier) ''NO FACE'' @ [''CENTER (Calibrated)''],
                 self\<lparr>reference_nose_tip := Some (nose_pixel (frames frame) face), calibrated := True\<rparr>,
                 frames'))"
proof -
  have fresh: "reference_nose_tip self = None \<and> \<not> calibrated self"
    using assms(1) by (auto simp add: FaceDetector_init_def recalibrate_detector_def)
  have run: "\<exists>frames'. detect_movements process self frames (earlier @ [frame]) =
            Inr (replicate (length earlier) ''NO FACE'' @ [''CENTER (Calibrated)''],
                 self\<lparr>reference_nose_tip := Some (nose_pixel (frames frame) face), calibrated := True\<rparr>,
                 frames')"
    using assms(2-5)
  proof (induction earlier arbitrary: frames)
    case Nil
    then show ?case using fresh by (simp add: calibrating_step)
  next
    case (Cons r earlier)
    let ?frames1 = "draw (PutText ''No face detected'' (10, 30) 1 (0, 0, 255) 2) r frames"
    have step: "detect_movement process self frames r = Inr ((''NO FACE'', r), self, ?frames1)"
      using Cons.prems(2) by (simp add: no_face_step)
    have "\<forall>q \<in> set earlier. process (cvtColor_BGR2RGB (?frames1 q)) = []"
    proof
      fix q assume q: "q \<in> set earlier"
      then have "q \<noteq> r" using Cons.prems(1) by auto
      then show "process (cvtColor_BGR2RGB (?frames1 q)) = []"
        using q Cons.prems(2) by (simp add: draw_other)
    qed
    moreover have "process (cvtColor_BGR2RGB (?frames1 frame)) = face # others"
      using Cons.prems(1,3) by (simp add: draw_other)
    moreover have "distinct (earlier @ [frame])"
      using Cons.prems(1) by simp
    ultimately obtain frames' where
      "detect_movements process self ?frames1 (earlier @ [frame]) =
         Inr (replicate (length earlier) ''NO FACE'' @ [''CENTER (Calibrated)''],
              self\<lparr>reference_nose_tip := Some (nose_pixel (?frames1 frame) face), calibrated := True\<rparr>,
              frames')"
      using Cons.IH [of ?frames1] Cons.prems(4) by blast
    moreover have "nose_pixel (?frames1 frame) face = nose_pixel (frames frame) face"
      using Cons.prems(1) by (simp add: draw_other)
    ultimately show ?case using step by simp
  qed
  show ?thesis using fresh run by simp
qed

text \<open>
  A detector calibrated at \<open>(320, 240)\<close> is recalibrated, sees a black frame and then a face
  with its nose at \<open>(300, 200)\<close>; a fresh detector sees the same two frames.
\<close>

theorem calibration_on_first_face_witness:
  "(\<exists>frames'. detect_movements (sees_face_at 300 200) (recalibrate_detector (calibrated_at 320 240))
       (\<lambda>r. if r = 0 then dark_frame else lit_frame) [0, 1] =
     Inr ([''NO FACE'', ''CENTER (Calibrated)''],
          \<lparr>reference_nose_tip = Some (300, 200), calibrated = True, face_mesh_closed = False\<rparr>,
          frames')) \<and>
   (\<exists>frames'. detect_movements (sees_face_at 300 200)
       \<lparr>reference_nose_tip = None, calibrated = False, face_mesh_closed = False\<rparr>
       (\<lambda>r. if r = 0 then dark_frame else lit_frame) [0, 1] =
     Inr ([''NO FACE'', ''CENTER (Calibrated)''],
          \<lparr>reference_nose_tip = Some (300, 200), calibrated = True, face_mesh_closed = False\<rparr>,
          frames'))"
proof -
  let ?frames = "\<lambda>r::nat. if r = 0 then dark_frame else lit_frame"
  have h: "distinct ([0] @ [1::nat])"
    "\<forall>r \<in> set [0::nat]. sees_face_at 300 200 (cvtColor_BGR2RGB (?frames r)) = []"
    "sees_face_at 300 200 (cvtColor_BGR2RGB (?frames 1)) = face_at 300 200 # []"
    "1 < length (face_at 300 200)"
    by (simp_all add: sample_defs)
  have n: "nose_pixel lit_frame (face_at 300 200) = (300, 200)"
    by (simp add: sample_defs)
  have a: "FaceDetector_init None = Inr (recalibrate_detector (calibrated_at 320 240))
             \<or> recalibrate_detector (calibrated_at 320 240) = recalibrate_detector (calibrated_at 320 240)"
    by simp
  have b: "FaceDetector_init None = Inr \<lparr>reference_nose_tip = None, calibrated = False, face_mesh_closed = False\<rparr>
             \<or> \<lparr>reference_nose_tip = None, calibrated = False, face_mesh_closed = False\<rparr>
                 = recalibrate_detector (calibrated_at 320 240)"
    by (simp add: FaceDetector_init_def)
  show ?thesis
    using calibration_on_first_face [where process = "sees_face_at 300 200" and frames = ?frames
        and earlier = "[0]" and frame = 1 and face = "face_at 300 200" and others = "[]", OF a h]
      calibration_on_first_face [where process = "sees_face_at 300 200" and frames = ?frames
        and earlier = "[0]" and frame = 1 and face = "face_at 300 200" and others = "[]", OF b h]
    by (simp add: n recalibrate_detector_def calibrated_at_def del: detect_movements.simps)
qed

section \<open>Frames without a face\<close>

text \<open>
  C5. When no face is found in the frame, \<open>detect_movement\<close> returns \<open>NO FACE\<close> and the
  detector after the call is the detector before it: the reference and the calibrated
  flag are as they were, whatever they were.
\<close>

theorem no_face_leaves_calibration:
  assumes "process (cvtColor_BGR2RGB (frames frame)) = []"
  shows "\<exists>frames'. detect_movement process self frames frame = Inr ((''NO FACE'', frame), self, frames')"
  using assms by (simp add: detect_movement_def)

theorem no_face_leaves_calibration_witness:
  "sees_face_at 300 200 (cvtColor_BGR2RGB dark_frame) = [] \<and>
   (\<exists>frames'. detect_movement (sees_face_at 300 200) (calibrated_at 320 240) (\<lambda>r. dark_frame) 0
      = Inr ((''NO FACE'', 0), calibrated_at 320 240, frames'))"
proof -
  have h: "sees_face_at 300 200 (cvtColor_BGR2RGB dark_frame) = []"
    by (simp add: sample_defs)
  show ?thesis
    using h no_face_leaves_calibration [where process = "sees_face_at 300 200"
        and frames = "\<lambda>r. dark_frame" and frame = 0 and self = "calibrated_at 320 240", OF h]
    by simp
qed

section \<open>Drawing in place\<close>



section \<open>The session: recalibrate before start\<close>

text \<open>
  The claim C3 says that the route \<open>/recalibrate\<close>, called when no detector exists, answers
  with an error. It does not: from the initial module state, with no camera at all, it
  answers 200 \<open>success\<close>, and a detector exists afterwards.
\<close>

theorem recalibrate_before_start_succeeds:
  "detector initial = None \<and>
   fst (recalibrate no_camera initial) =
     ([(''status'', JStr ''success''), (''message'', JStr ''Recalibrated successfully'')], 200) \<and>
   detector (snd (recalibrate no_camera initial)) = Some 0"
  by (simp add: recalibrate_def get_detector_def FaceDetector_init_def initial_def no_camera_def
        status_message_def)

text \<open>
  C3, amended. Called when no detector exists, \<open>/recalibrate\<close> has \<open>get_detector\<close> build
  one: a new uncalibrated detector becomes the session's detector and the answer is 200
  \<open>success\<close>. Only when building the detector raises is the answer an error body (500 with
  the message of the exception), and then the module state is unchanged.
\<close>

theorem recalibrate_creates_detector:
  assumes "detector s = None"
  shows "recalibrate e s =
           (case mesh_error e of
              None \<Rightarrow>
                (([(''status'', JStr ''success''), (''message'', JStr ''Recalibrated successfully'')], 200),
                 s\<lparr>detector := Some (detector_count s),
                   detector_store := (detector_store s)
                     (detector_count s :=
                        \<lparr>reference_nose_tip = None, calibrated = False, face_mesh_closed = False\<rparr>),
                   detector_count := Suc (detector_count s)\<rparr>)
            | Some msg \<Rightarrow> (([(''status'', JStr ''error''), (''message'', JStr msg)], 500), s))"
  using assms
  by (simp add: recalibrate_def get_detector_def FaceDetector_init_def recalibrate_detector_def
        status_message_def split: option.splits)

theorem recalibrate_creates_detector_witness:
  "detector initial = None \<and>
   recalibrate no_camera initial =
     (([(''status'', JStr ''success''), (''message'', JStr ''Recalibrated successfully'')], 200),
      initial\<lparr>detector := Some 0,
        detector_store := (detector_store initial)
          (0 := \<lparr>reference_nose_tip = None, calibrated = False, face_mesh_closed = False\<rparr>),
        detector_count := Suc 0\<rparr>) \<and>
   recalibrate (no_camera\<lparr>mesh_error := Some ''no model''\<rparr>) initial =
     (([(''status'', JStr ''error''), (''message'', JStr ''no model'')], 500), initial)"
proof -
  have h: "detector initial = None" by (simp add: initial_def)
  have c: "detector_count initial = 0" by (simp add: initial_def)
  show ?thesis
    using h recalibrate_creates_detector [OF h, of no_camera]
      recalibrate_creates_detector [OF h, of "no_camera\<lparr>mesh_error := Some ''no model''\<rparr>"]
    by (simp add: c no_camera_def)
qed

section \<open>Shared facts about the session\<close>

lemma start_from_initial:
  "start_detection camera_ready initial =
     (status_message ''success'' ''Detection started'' 200,
      initial\<lparr>detector := Some 0,
        detector_store := (detector_store initial)
          (0 := \<lparr>reference_nose_tip = None, calibrated = False, face_mesh_closed = False\<rparr>),
        detector_count := Suc 0,
        camera := Some 0,
        capture_store := (capture_store initial)(0 := \<lparr>opened = True\<rparr>),
        capture_count := Suc 0\<rparr>)"
  by (simp add: start_detection_def get_detector_def get_camera_def new_camera_def
        FaceDetector_init_def cv2_VideoCapture_def isOpened_def initial_def camera_ready_def)

lemma start_without_camera:
  "start_detection no_camera initial =
     (status_message ''error'' ''Could not access camera'' 500,
      initial\<lparr>detector := Some 0,
        detector_store := (detector_store initial)
          (0 := \<lparr>reference_nose_tip = None, calibrated = False, face_mesh_closed = False\<rparr>),
        detector_count := Suc 0,
        camera := Some 0,
        capture_store := (capture_store initial)(0 := \<lparr>opened = False\<rparr>),
        capture_count := Suc 0\<rparr>)"
  by (simp add: start_detection_def get_detector_def get_camera_def new_camera_def
        FaceDetector_init_def cv2_VideoCapture_def isOpened_def initial_def no_camera_def)

lemma open_handles_new:
  "open_handles (s\<lparr>capture_store := (capture_store s)(capture_count s := c),
                   capture_count := Suc (capture_count s)\<rparr>)
     = open_handles s + (if opened c then 1 else 0)"
proof -
  have "filter (\<lambda>r. opened (((capture_store s)(capture_count s := c)) r)) [0..<capture_count s]
          = filter (\<lambda>r. opened (capture_store s r)) [0..<capture_count s]"
    by (rule filter_cong) auto
  then show ?thesis by (simp add: open_handles_def)
qed

lemma new_camera_facts:
  "detector (snd (new_camera e s)) = detector s"
  "camera (snd (new_camera e s)) = Some (fst (new_camera e s))"
  "isOpened (capture_store (snd (new_camera e s)) (fst (new_camera e s))) = device_available e"
  "is_active (snd (new_camera e s)) = device_available e"
  "capture_count (snd (new_camera e s)) = Suc (capture_count s)"
  by (simp_all add: new_camera_def is_active_def isOpened_def cv2_VideoCapture_def)

lemma new_camera_open_handles:
  "open_handles (snd (new_camera e s)) = open_handles s + (if device_available e then 1 else 0)"
proof -
  have "open_handles (snd (new_camera e s))
          = open_handles (s\<lparr>capture_store := (capture_store s)(capture_count s := cv2_VideoCapture e),
                              capture_count := Suc (capture_count s)\<rparr>)"
    by (simp add: new_camera_def open_handles_def)
  then show ?thesis
    by (simp add: open_handles_new cv2_VideoCapture_def)
qed

lemma get_camera_active:
  "is_active s \<Longrightarrow> \<exists>cap. camera s = Some cap \<and> get_camera e s = (cap, s)"
  by (cases "camera s") (simp_all add: get_camera_def is_active_def)

lemma get_camera_inactive:
  "\<not> is_active s \<Longrightarrow> get_camera e s = new_camera e s"
  by (cases "camera s") (simp_all add: get_camera_def is_active_def)

lemma start_with_detector:
  assumes "detector s = Some r"
  shows "start_detection e s =
           (if is_active s then (status_message ''success'' ''Detection started'' 200, s)
            else if device_available e
              then (status_message ''success'' ''Detection started'' 200, snd (new_camera e s))
              else (status_message ''error'' ''Could not access camera'' 500, snd (new_camera e s)))"
proof (cases "is_active s")
  case True
  then obtain cap where "camera s = Some cap" and "get_camera e s = (cap, s)"
    using get_camera_active by blast
  then show ?thesis
    using True assms by (simp add: start_detection_def get_detector_def is_active_def)
next
  case False
  then show ?thesis
    using assms
    by (simp add: start_detection_def get_detector_def get_camera_inactive new_camera_facts
          case_prod_unfold)
qed


lemma start_without_detector:
  assumes "detector s = None"
  shows "start_detection e s =
           (case mesh_error e of
              Some msg \<Rightarrow> (status_message ''error'' msg 500, s)
            | None \<Rightarrow>
                start_detection e
                  (s\<lparr>detector := Some (detector_count s),
                     detector_store := (detector_store s)(detector_count s :=
                       \<lparr>reference_nose_tip = None, calibrated = False, face_mesh_closed = False\<rparr>),
                     detector_count := Suc (detector_count s)\<rparr>))"
  using assms
  by (cases "mesh_error e") (simp_all add: start_detection_def get_detector_def FaceDetector_init_def)

lemma status_message_differ:
  "status_message ''error'' m 500 \<noteq> status_message ''success'' ''Detection started'' 200"
  by (simp add: status_message_def)

lemma start_success_with_detector:
  assumes "detector s = Some r"
    and "fst (start_detection e1 s) = status_message ''success'' ''Detection started'' 200"
    and "s1 = snd (start_detection e1 s)"
  shows "start_detection e2 s1 = (status_message ''success'' ''Detection started'' 200, s1) \<and>
         is_active s1 \<and>
         capture_count s1 = (if is_active s then capture_count s else Suc (capture_count s)) \<and>
         open_handles s1 = (if is_active s then open_handles s else Suc (open_handles s))"
proof (cases "is_active s")
  case True
  then have "s1 = s"
    using assms(1,3) by (simp add: start_with_detector)
  then show ?thesis
    using True assms(1) by (simp add: start_with_detector)
next
  case False
  have avail: "device_available e1"
    using assms(1,2) False by (simp add: start_with_detector status_message_differ split: if_splits)
  have s1: "s1 = snd (new_camera e1 s)"
    using assms(1,3) False avail by (simp add: start_with_detector)
  have det: "detector s1 = Some r" and act: "is_active s1"
    using assms(1) avail by (simp_all add: s1 new_camera_facts)
  have "start_detection e2 s1 = (status_message ''success'' ''Detection started'' 200, s1)"
    using det act by (simp add: start_with_detector)
  then show ?thesis
    using False act avail by (simp add: s1 new_camera_facts new_camera_open_handles)
qed

lemma get_detector_result:
  assumes "get_detector e s = Inr (fd, s1)"
  shows "detector s1 = Some fd"
proof -
  have fd: "fd = fst (projr (get_detector e s))" and s1: "s1 = snd (projr (get_detector e s))"
    using assms by simp_all
  show ?thesis
  proof (cases "detector s")
    case None
    show ?thesis
    proof (cases "mesh_error e")
      case n: None
      show ?thesis
        unfolding fd s1 by (simp add: get_detector_def FaceDetector_init_def None n)
    next
      case (Some msg)
      then have "get_detector e s = Inl (Exception msg)"
        by (simp add: get_detector_def FaceDetector_init_def None)
      then show ?thesis using assms by simp
    qed
  next
    case (Some r)
    show ?thesis
      unfolding fd s1 by (simp add: get_detector_def Some)
  qed
qed

lemma get_camera_result:
  assumes "get_camera e s1 = (cap, s2)"
  shows "detector s2 = detector s1 \<and> camera s2 = Some cap"
proof (cases "is_active s1")
  case True
  then obtain c where "camera s1 = Some c" and "get_camera e s1 = (c, s1)"
    using get_camera_active by blast
  then have "cap = c" and "s2 = s1" using assms by simp_all
  then show ?thesis using \<open>camera s1 = Some c\<close> by simp
next
  case False
  then have "new_camera e s1 = (cap, s2)"
    using assms by (simp add: get_camera_inactive)
  then have "cap = fst (new_camera e s1)" and "s2 = snd (new_camera e s1)"
    by simp_all
  then show ?thesis by (simp add: new_camera_facts)
qed

section \<open>The session: a read that fails\<close>

text \<open>
  The claim C6 says that a failed read resets the device to closed. It does not: the
  session is started, the stream is opened and its first read fails; the stream ends with
  no error, the module state is what it was, the global \<open>camera\<close> still names the handle,
  the handle is still open, and \<open>/status\<close> reports the session active.
\<close>

theorem read_failure_leaves_device_open:
  "generator_next (\<lambda>img. []) (\<lambda>img. []) read_fails Created (snd (start_detection camera_ready initial))
     = (Inr None, Finished, snd (start_detection camera_ready initial)) \<and>
   camera (snd (start_detection camera_ready initial)) = Some 0 \<and>
   isOpened (capture_store (snd (start_detection camera_ready initial)) 0) \<and>
   detection_status (snd (start_detection camera_ready initial)) =
     ([(''active'', JBool True), (''message'', JStr ''Detection is active'')], 200)"
  by (simp add: start_from_initial generator_next_def loop_turn_def get_detector_def get_camera_def
        read_capture_def isOpened_def detection_status_def is_active_def read_fails_def)

text \<open>
  C6, amended. When a device read fails during the frame stream, be it the first read of
  a stream just opened or a later one, the sequence ends there and no error is surfaced;
  asking again gives the end again. The failed read changes nothing: for a later read the
  module state is exactly what it was before the request, and for the first read it is
  exactly what \<open>get_detector\<close> and \<open>get_camera\<close> made of it, with the globals \<open>detector\<close> and
  \<open>camera\<close> naming the objects they returned. The device handle is neither released nor
  reset to closed, so a later \<open>start\<close> finds it as the failed read left it.
\<close>

theorem read_failure_ends_stream:
  "(read_capture e (capture_store s cap) = None \<longrightarrow>
      generator_next imencode process e (Suspended face_detector cap) s = (Inr None, Finished, s)) \<and>
   (get_detector e s = Inr (face_detector, s1) \<and> get_camera e s1 = (cap, s2) \<and>
    read_capture e (capture_store s2 cap) = None \<longrightarrow>
      generator_next imencode process e Created s = (Inr None, Finished, s2) \<and>
      detector s2 = Some face_detector \<and> camera s2 = Some cap) \<and>
   generator_next imencode process e' Finished s = (Inr None, Finished, s)"
proof -
  have later: "generator_next imencode process e (Suspended face_detector cap) s = (Inr None, Finished, s)"
    if "read_capture e (capture_store s cap) = None"
    using that by (simp add: generator_next_def loop_turn_def)
  have first: "generator_next imencode process e Created s = (Inr None, Finished, s2) \<and>
      detector s2 = Some face_detector \<and> camera s2 = Some cap"
    if gd: "get_detector e s = Inr (face_detector, s1)" and gc: "get_camera e s1 = (cap, s2)"
      and rd: "read_capture e (capture_store s2 cap) = None"
  proof -
    have "generator_next imencode process e Created s = (Inr None, Finished, s2)"
      using gd gc rd by (simp add: generator_next_def loop_turn_def)
    moreover have "detector s1 = Some face_detector"
      using gd by (rule get_detector_result)
    moreover have "detector s2 = detector s1 \<and> camera s2 = Some cap"
      using gc by (rule get_camera_result)
    ultimately show ?thesis by simp
  qed
  have "generator_next imencode process e' Finished s = (Inr None, Finished, s)"
    by (simp add: generator_next_def)
  then show ?thesis using later first by blast
qed

text \<open>
  With a camera that opens and then delivers nothing: a stream opened on the session
  never started builds the detector and the camera, its first read fails, and the stream
  ends leaving both in place with the handle open; a stream resting at its \<open>yield\<close> on
  the started session ends with the session as it was.
\<close>

theorem read_failure_ends_stream_witness:
  "generator_next (\<lambda>img. []) (\<lambda>img. []) read_fails Created initial
     = (Inr None, Finished, snd (start_detection camera_ready initial)) \<and>
   is_active (snd (start_detection camera_ready initial)) \<and>
   generator_next (\<lambda>img. []) (\<lambda>img. []) read_fails (Suspended 0 0)
       (snd (start_detection camera_ready initial))
     = (Inr None, Finished, snd (start_detection camera_ready initial))"
proof -
  let ?s1 = "initial\<lparr>detector := Some 0,
        detector_store := (detector_store initial)
          (0 := \<lparr>reference_nose_tip = None, calibrated = False, face_mesh_closed = False\<rparr>),
        detector_count := Suc 0\<rparr>"
  let ?s2 = "snd (start_detection camera_ready initial)"
  have gd: "get_detector read_fails initial = Inr (0, ?s1)"
    by (simp add: get_detector_def FaceDetector_init_def initial_def read_fails_def)
  have gc: "get_camera read_fails ?s1 = (0, ?s2)"
    unfolding start_from_initial
    by (simp add: get_camera_def new_camera_def cv2_VideoCapture_def initial_def read_fails_def)
  have rd: "read_capture read_fails (capture_store ?s2 0) = None"
    by (simp add: start_from_initial read_capture_def read_fails_def)
  have act: "is_active ?s2"
    by (simp add: start_from_initial is_active_def isOpened_def)
  note t = read_failure_ends_stream [where e = read_fails and s = initial and face_detector = 0
      and ?s1.0 = ?s1 and cap = 0 and ?s2.0 = ?s2 and imencode = "\<lambda>img. []" and process = "\<lambda>img. []"]
  note u = read_failure_ends_stream [where e = read_fails and s = ?s2 and face_detector = 0
      and cap = 0 and imencode = "\<lambda>img. []" and process = "\<lambda>img. []"]
  have "generator_next (\<lambda>img. []) (\<lambda>img. []) read_fails Created initial = (Inr None, Finished, ?s2)"
    using t [THEN conjunct2, THEN conjunct1] gd gc rd by blast
  moreover have "generator_next (\<lambda>img. []) (\<lambda>img. []) read_fails (Suspended 0 0) ?s2
      = (Inr None, Finished, ?s2)"
    using u [THEN conjunct1] rd by blast
  ultimately show ?thesis using act by blast
qed

section \<open>The session: start and stop\<close>

text \<open>
  The claim C7 says that two calls of \<open>start\<close> with no \<open>stop\<close> between open exactly one
  device handle. With a camera that cannot be opened they open none: from the initial
  state both calls answer 500, each builds a \<open>VideoCapture\<close> object of its own, the global
  \<open>camera\<close> moves from the first to the second, and no handle is open afterwards. The
  second call is not a no-op.
\<close>

theorem start_twice_without_camera:
  "fst (start_detection no_camera initial) =
     ([(''status'', JStr ''error''), (''message'', JStr ''Could not access camera'')], 500) \<and>
   fst (start_detection no_camera (snd (start_detection no_camera initial))) =
     ([(''status'', JStr ''error''), (''message'', JStr ''Could not access camera'')], 500) \<and>
   camera (snd (start_detection no_camera initial)) = Some 0 \<and>
   camera (snd (start_detection no_camera (snd (start_detection no_camera initial)))) = Some 1 \<and>
   capture_count (snd (start_detection no_camera (snd (start_detection no_camera initial)))) = 2 \<and>
   open_handles (snd (start_detection no_camera (snd (start_detection no_camera initial)))) = 0 \<and>
   snd (start_detection no_camera (snd (start_detection no_camera initial)))
     \<noteq> snd (start_detection no_camera initial)"
proof -
  let ?s1 = "initial\<lparr>detector := Some 0,
        detector_store := (detector_store initial)
          (0 := \<lparr>reference_nose_tip = None, calibrated = False, face_mesh_closed = False\<rparr>),
        detector_count := Suc 0,
        camera := Some 0,
        capture_store := (capture_store initial)(0 := \<lparr>opened = False\<rparr>),
        capture_count := Suc 0\<rparr>"
  have d: "detector ?s1 = Some 0" and na: "\<not> is_active ?s1"
    and c1: "capture_count ?s1 = Suc 0" and o1: "open_handles ?s1 = 0"
    by (simp_all add: is_active_def isOpened_def open_handles_def initial_def)
  have nd: "\<not> device_available no_camera"
    by (simp add: no_camera_def)
  have second: "start_detection no_camera ?s1 =
      (status_message ''error'' ''Could not access camera'' 500, snd (new_camera no_camera ?s1))"
    using na nd by (simp add: start_with_detector [OF d])
  have cam2: "camera (snd (new_camera no_camera ?s1)) = Some 1"
    by (simp add: new_camera_def)
  have cnt2: "capture_count (snd (new_camera no_camera ?s1)) = 2"
    by (simp add: new_camera_def)
  have oh2: "open_handles (snd (new_camera no_camera ?s1)) = 0"
    using nd by (simp add: new_camera_open_handles o1)
  have ne: "snd (new_camera no_camera ?s1) \<noteq> ?s1"
  proof
    assume "snd (new_camera no_camera ?s1) = ?s1"
    then have "capture_count (snd (new_camera no_camera ?s1)) = capture_count ?s1"
      by (rule arg_cong)
    then show False unfolding cnt2 c1 by simp
  qed
  show ?thesis
    unfolding start_without_camera
    using second cam2 cnt2 oh2 ne by (simp add: status_message_def)
qed

text \<open>
  C7, amended. If \<open>start\<close> reports success, a second \<open>start\<close> with no \<open>stop\<close> between,
  whatever the environment then is, reports success again and changes nothing, and the
  session is active. Over the two calls exactly one \<open>VideoCapture\<close> handle is created and
  opened when the session was not active before the first call, and none when it was;
  so where no handle but the session's own was open before, exactly one device handle is
  open after the two calls.
\<close>

theorem start_idempotent:
  assumes "fst (start_detection e1 s) = status_message ''success'' ''Detection started'' 200"
    and "s1 = snd (start_detection e1 s)"
    and "s2 = snd (start_detection e2 s1)"
  shows "start_detection e2 s1 = (status_message ''success'' ''Detection started'' 200, s1) \<and>
         is_active s2 \<and>
         capture_count s2 = (if is_active s then capture_count s else Suc (capture_count s)) \<and>
         open_handles s2 = (if is_active s then open_handles s else Suc (open_handles s)) \<and>
         (open_handles s = (if is_active s then 1 else 0) \<longrightarrow> open_handles s2 = 1)"
proof -
  have main: "start_detection e2 s1 = (status_message ''success'' ''Detection started'' 200, s1) \<and>
         is_active s1 \<and>
         capture_count s1 = (if is_active s then capture_count s else Suc (capture_count s)) \<and>
         open_handles s1 = (if is_active s then open_handles s else Suc (open_handles s))"
  proof (cases "detector s")
    case (Some r)
    then show ?thesis using assms(1,2) by (rule start_success_with_detector)
  next
    case None
    let ?sd = "s\<lparr>detector := Some (detector_count s),
                  detector_store := (detector_store s)(detector_count s :=
                    \<lparr>reference_nose_tip = None, calibrated = False, face_mesh_closed = False\<rparr>),
                  detector_count := Suc (detector_count s)\<rparr>"
    have no_err: "mesh_error e1 = None"
      using assms(1) None
      by (cases "mesh_error e1") (simp_all add: start_without_detector status_message_differ)
    then have eq: "start_detection e1 s = start_detection e1 ?sd"
      using None by (simp add: start_without_detector)
    have d: "detector ?sd = Some (detector_count s)" by simp
    have same: "is_active ?sd = is_active s" "capture_count ?sd = capture_count s"
      "open_handles ?sd = open_handles s"
      by (simp_all add: is_active_def open_handles_def cong: option.case_cong)
    have "start_detection e2 s1 = (status_message ''success'' ''Detection started'' 200, s1) \<and>
         is_active s1 \<and>
         capture_count s1 = (if is_active ?sd then capture_count ?sd else Suc (capture_count ?sd)) \<and>
         open_handles s1 = (if is_active ?sd then open_handles ?sd else Suc (open_handles ?sd))"
      using assms(1,2) unfolding eq by (rule start_success_with_detector [OF d])
    then show ?thesis unfolding same .
  qed
  then have "s2 = s1" using assms(3) by simp
  then show ?thesis using main by simp
qed

text \<open>
  From the initial state with a camera that opens: two calls of \<open>start\<close>, one handle
  created, one handle open; the second call succeeds even when the camera has gone.
\<close>

theorem start_idempotent_witness:
  "fst (start_detection camera_ready initial) = status_message ''success'' ''Detection started'' 200 \<and>
   start_detection no_camera (snd (start_detection camera_ready initial))
     = (status_message ''success'' ''Detection started'' 200, snd (start_detection camera_ready initial)) \<and>
   capture_count (snd (start_detection no_camera (snd (start_detection camera_ready initial)))) = 1 \<and>
   open_handles (snd (start_detection no_camera (snd (start_detection camera_ready initial)))) = 1"
proof -
  have h: "fst (start_detection camera_ready initial) = status_message ''success'' ''Detection started'' 200"
    by (simp add: start_from_initial)
  have i: "\<not> is_active initial" "capture_count initial = 0" "open_handles initial = 0"
    by (simp_all add: is_active_def open_handles_def initial_def)
  note t = start_idempotent [OF h refl refl, of no_camera]
  show ?thesis
    using h t [THEN conjunct1] t [THEN conjunct2, THEN conjunct2, THEN conjunct1]
      t [THEN conjunct2, THEN conjunct2, THEN conjunct2, THEN conjunct2]
    by (simp add: i)
qed

text \<open>
  C8. \<open>stop\<close> always reports success and leaves both the device handle and the detector
  absent; called on a state it has just produced it changes nothing, and called on the
  initial state, where nothing was ever started, it changes nothing either.
\<close>

theorem stop_idempotent:
  "fst (stop_detection s) = status_message ''success'' ''Detection stopped'' 200 \<and>
   camera (snd (stop_detection s)) = None \<and>
   detector (snd (stop_detection s)) = None \<and>
   stop_detection (snd (stop_detection s))
     = (status_message ''success'' ''Detection stopped'' 200, snd (stop_detection s)) \<and>
   stop_detection initial = (status_message ''success'' ''Detection stopped'' 200, initial)"
  by (simp add: stop_detection_def Let_def initial_def split: option.splits)

end
